theory Spec2Isabelle
  imports Main "HOL-Library.Word"
begin

unbundle bit_operations_syntax

section \<open>ODIS2VCP: data model\<close>

text \<open>
  The converter reads ODIS datasets (hex payload plus addresses) from an XML document,
  optionally replaces the payload of the first one and recomputes its trailing CRC, and
  writes a VCP document or the raw payload.

  Python \<open>bytes\<close> are lists of 8-bit words, Python \<open>int\<close> is \<open>int\<close>, and text is a
  list of 8-bit characters (code points below 256). Every exception the code can meet is
  a constructor of \<open>exn\<close>; \<open>binascii.Error\<close> is a subclass of \<open>ValueError\<close> in
  Python, which matters only for the handlers that name both.
\<close>

type_synonym byte = "8 word"
type_synonym bytes = "byte list"

datatype exn = ParseError string | ValueError | TypeError | BinasciiError | OverflowError

text \<open>\<open>CRC32_POLYNOMIAL\<close>, \<open>CRC32_INIT_VALUE\<close>, \<open>CRC32_XOR_OUT\<close> (lines 32-34).\<close>

definition CRC32_POLYNOMIAL :: int where
  "CRC32_POLYNOMIAL = 0x104c11db7"

definition CRC32_INIT_VALUE :: int where
  "CRC32_INIT_VALUE = 0"

definition CRC32_XOR_OUT :: int where
  "CRC32_XOR_OUT = 0xFFFFFFFF"

text \<open>Class \<open>DatasetODIS\<close>: the three optional fields start as \<open>None\<close>.\<close>

record DatasetODIS =
  data :: bytes
  address :: int
  start_address :: int
  name :: "string option"
  version :: "string option"
  login :: "string option"

definition DatasetODIS_init :: "bytes \<Rightarrow> int \<Rightarrow> int \<Rightarrow> DatasetODIS" where
  "DatasetODIS_init d a s =
     \<lparr>data = d, address = a, start_address = s, name = None, version = None, login = None\<rparr>"

text \<open>Class \<open>ConversionResult\<close>: the dataset together with its VCP text.\<close>

record ConversionResult =
  dataset :: DatasetODIS
  vcp :: string

section \<open>Hex codec\<close>

subsection \<open>\<open>convert_to_binary\<close>\<close>

text \<open>
  \<open>hex_string.replace('0x', '')\<close>: the occurrences are found from the left and do not
  overlap, and the scan goes on after the removed pair.
\<close>

fun replace_0x :: "string \<Rightarrow> string" where
  "replace_0x [] = []"
| "replace_0x [c] = [c]"
| "replace_0x (c # d # rest) =
     (if c = CHR ''0'' \<and> d = CHR ''x'' then replace_0x rest else c # replace_0x (d # rest))"

text \<open>
  The class \<open>\s\<close> of a \<open>str\<close> pattern: tab, line feed, vertical tab, form feed, carriage
  return, the four separators 28-31, space, and in the range 128-255 next line (133) and
  no-break space (160).
\<close>

definition is_space :: "char \<Rightarrow> bool" where
  "is_space c = ((of_char c :: nat) \<in> {9, 10, 11, 12, 13, 28, 29, 30, 31, 32, 133, 160})"

text \<open>The value of a hexadecimal digit, either case.\<close>

definition hex_val :: "char \<Rightarrow> nat option" where
  "hex_val c =
     (let n = (of_char c :: nat) in
      if 48 \<le> n \<and> n \<le> 57 then Some (n - 48)
      else if 97 \<le> n \<and> n \<le> 102 then Some (n - 87)
      else if 65 \<le> n \<and> n \<le> 70 then Some (n - 55)
      else None)"

text \<open>
  \<open>binascii.unhexlify\<close> on a \<open>str\<close>: a character outside ASCII is a \<open>ValueError\<close>, an
  odd length or a character that is no hex digit is a \<open>binascii.Error\<close>; otherwise each
  pair of digits is one byte.
\<close>

fun a2b_hex :: "string \<Rightarrow> exn + bytes" where
  "a2b_hex [] = Inr []"
| "a2b_hex [c] = Inl BinasciiError"
| "a2b_hex (hi # lo # rest) =
     (case (hex_val hi, hex_val lo) of
        (Some h, Some l) \<Rightarrow>
          (case a2b_hex rest of
             Inl e \<Rightarrow> Inl e
           | Inr bs \<Rightarrow> Inr (of_nat (16 * h + l) # bs))
      | _ \<Rightarrow> Inl BinasciiError)"

definition unhexlify :: "string \<Rightarrow> exn + bytes" where
  "unhexlify s =
     (if \<exists>c \<in> set s. 128 \<le> (of_char c :: nat) then Inl ValueError
      else if odd (length s) then Inl BinasciiError
      else a2b_hex s)"

text \<open>
  \<open>convert_to_binary\<close> (lines 169-191). \<open>None\<close> is the empty byte string. The handler
  of \<open>binascii.Error\<close> logs and raises again, so every error of \<open>unhexlify\<close> leaves the
  function unchanged.
\<close>

definition convert_to_binary :: "string option \<Rightarrow> exn + bytes" where
  "convert_to_binary hex_string =
     (case hex_string of
        None \<Rightarrow> Inr []
      | Some s \<Rightarrow>
          (let clean_string = replace_0x s;
               clean_string = filter (\<lambda>c. \<not> is_space c) clean_string;
               clean_string = filter (\<lambda>c. c \<noteq> CHR '','') clean_string
           in unhexlify clean_string))"

subsection \<open>Formatting: \<open>:x\<close>, \<open>:02x\<close> and \<open>','.join\<close>\<close>

definition hex_digit :: "nat \<Rightarrow> char" where
  "hex_digit n = ''0123456789abcdef'' ! n"

function hex_nat :: "nat \<Rightarrow> string" where
  "hex_nat n = (if n < 16 then [hex_digit n] else hex_nat (n div 16) @ [hex_digit (n mod 16)])"
  by pat_completeness auto
termination
  by (relation "measure id") auto

text \<open>\<open>f"{n:x}"\<close>: lowercase digits, no prefix, a minus sign for a negative number.\<close>

definition format_x :: "int \<Rightarrow> string" where
  "format_x n = (if n < 0 then CHR ''-'' # hex_nat (nat (- n)) else hex_nat (nat n))"

text \<open>\<open>f"{b:02x}"\<close> for an element of a \<open>bytes\<close> object: exactly two digits.\<close>

definition format_02x :: "byte \<Rightarrow> string" where
  "format_02x b = [hex_digit (unat b div 16), hex_digit (unat b mod 16)]"

fun str_join :: "string \<Rightarrow> string list \<Rightarrow> string" where
  "str_join sep [] = []"
| "str_join sep [x] = x"
| "str_join sep (x # y # ys) = x @ sep @ str_join sep (y # ys)"

text \<open>The payload text of the serializer (line 278).\<close>

definition hex_data :: "bytes \<Rightarrow> string" where
  "hex_data d = str_join '','' (map (\<lambda>b. ''0x'' @ format_02x b) d)"

section \<open>Properties of the hex codec\<close>

lemma hex_digit_table:
  "\<forall>n \<in> set [0..<16]. hex_val (hex_digit n) = Some n \<and> \<not> is_space (hex_digit n)
     \<and> hex_digit n \<noteq> CHR '','' \<and> hex_digit n \<noteq> CHR ''x'' \<and> (of_char (hex_digit n) :: nat) < 128"
  by code_simp

lemma hex_digit_cases:
  assumes "n < 16"
  shows "hex_val (hex_digit n) = Some n \<and> \<not> is_space (hex_digit n) \<and> hex_digit n \<noteq> CHR '',''
     \<and> hex_digit n \<noteq> CHR ''x'' \<and> (of_char (hex_digit n) :: nat) < 128"
proof -
  from assms have "n \<in> set [0..<16]" by simp
  with hex_digit_table show ?thesis by blast
qed

definition clean :: "string \<Rightarrow> string" where
  "clean s = filter (\<lambda>c. c \<noteq> CHR '','') (filter (\<lambda>c. \<not> is_space c) (replace_0x s))"

lemma byte_nibbles: "unat (b :: byte) div 16 < 16" "unat b mod 16 < 16"
proof -
  have "unat b < 256" using unsigned_less [of b] by simp
  then show "unat b div 16 < 16" by arith
  show "unat b mod 16 < 16" by simp
qed

lemma comma_not_space: "\<not> is_space CHR '',''"
  by (simp add: is_space_def)

lemma clean_format_02x:
  "clean (CHR ''0'' # CHR ''x'' # format_02x b) = format_02x b"
  using hex_digit_cases [OF byte_nibbles(1) [of b]] hex_digit_cases [OF byte_nibbles(2) [of b]]
  by (simp add: clean_def format_02x_def)

lemma clean_format_02x_comma:
  "clean (CHR ''0'' # CHR ''x'' # format_02x b @ CHR '','' # CHR ''0'' # CHR ''x'' # rest)
     = format_02x b @ clean (CHR ''0'' # CHR ''x'' # rest)"
  using hex_digit_cases [OF byte_nibbles(1) [of b]] hex_digit_cases [OF byte_nibbles(2) [of b]]
  by (simp add: clean_def format_02x_def comma_not_space)

lemma clean_hex_data: "clean (hex_data d) = concat (map format_02x d)"
proof (induction d rule: induct_list012)
  case 1
  show ?case by (simp add: hex_data_def clean_def)
next
  case (2 b)
  show ?case using clean_format_02x [of b] by (simp add: hex_data_def)
next
  case (3 b c d)
  have "hex_data (b # c # d) = CHR ''0'' # CHR ''x'' # format_02x b @ CHR '','' # hex_data (c # d)"
    by (simp add: hex_data_def)
  moreover have "\<exists>rest. hex_data (c # d) = CHR ''0'' # CHR ''x'' # rest"
    by (cases d) (simp_all add: hex_data_def)
  ultimately show ?case using 3(2) clean_format_02x_comma [of b]
    by auto
qed

lemma a2b_hex_concat: "a2b_hex (concat (map format_02x d)) = Inr d"
proof (induction d)
  case Nil
  show ?case by simp
next
  case (Cons b d)
  then show ?case
    using hex_digit_cases [OF byte_nibbles(1) [of b]] hex_digit_cases [OF byte_nibbles(2) [of b]]
    by (simp add: format_02x_def)
qed

lemma ascii_concat: "c \<in> set (concat (map format_02x d)) \<Longrightarrow> (of_char c :: nat) < 128"
proof -
  assume "c \<in> set (concat (map format_02x d))"
  then obtain b where "c \<in> set (format_02x b)" by auto
  then show ?thesis
    using hex_digit_cases [OF byte_nibbles(1) [of b]] hex_digit_cases [OF byte_nibbles(2) [of b]]
    by (auto simp: format_02x_def)
qed

lemma even_concat: "even (length (concat (map format_02x d)))"
  by (induction d) (simp_all add: format_02x_def)

text \<open>
  C1: for every byte sequence \<open>d\<close>, the empty one included, \<open>convert_to_binary\<close> applied
  to the serializer's encoding of \<open>d\<close> (comma-separated, each byte as \<open>0x\<close> and two
  lowercase hex digits) returns \<open>d\<close>, and the encoding of the empty sequence is the
  empty text.
\<close>

theorem decode_encode_roundtrip:
  "convert_to_binary (Some (hex_data d)) = Inr d \<and> hex_data [] = []"
proof -
  have "convert_to_binary (Some (hex_data d)) = unhexlify (clean (hex_data d))"
    by (simp add: convert_to_binary_def clean_def)
  also have "\<dots> = unhexlify (concat (map format_02x d))"
    by (simp add: clean_hex_data)
  also have "\<dots> = a2b_hex (concat (map format_02x d))"
  proof -
    have "\<not> (\<exists>c \<in> set (concat (map format_02x d)). 128 \<le> (of_char c :: nat))"
      using ascii_concat [of _ d] by (meson not_le)
    then show ?thesis
      using even_concat [of d] unfolding unhexlify_def by simp
  qed
  finally show ?thesis by (simp add: a2b_hex_concat hex_data_def)
qed

theorem decode_encode_roundtrip_witness:
  "hex_data [0x0A, 0xFF] = ''0x0a,0xff'' \<and> convert_to_binary (Some ''0x0a,0xff'') = Inr [0x0A, 0xFF]"
proof -
  have enc: "hex_data [0x0A, 0xFF] = ''0x0a,0xff''"
    by (simp add: hex_data_def format_02x_def hex_digit_def)
  show ?thesis using decode_encode_roundtrip [of "[0x0A, 0xFF]"] by (simp add: enc)
qed

end
